theory Spec2Isabelle
  imports Main
begin

section \<open>The OAuth 2 consumer blueprint of flask\_dance\<close>

text \<open>
  This theory embeds \<^verbatim>\<open>flask_dance/consumer/oauth2.py\<close>: the class
  \<^verbatim>\<open>OAuth2Session\<close> (a requests session that resolves URLs against a base URL)
  and the class \<^verbatim>\<open>OAuth2ConsumerBlueprint\<close> with its views \<^verbatim>\<open>login\<close> and
  \<^verbatim>\<open>authorized\<close>, its \<^verbatim>\<open>client_id\<close> property and \<^verbatim>\<open>load_token\<close>.

  The module is glue between collaborators it does not define: the Flask request and
  session, \<^verbatim>\<open>url_for\<close>, the blinker signals, the \<^verbatim>\<open>URLObject\<close> string class and
  the requests\_oauthlib session. Each of them enters the model either as a field of the
  record \<open>env\<close> (a function the views call) or as a part of the record \<open>world\<close>
  (state the views read and write). A view takes the world and returns its result
  together with the world it leaves behind; a Python exception is the \<open>Inl\<close> case of
  the result, and the world returned with it holds the writes made before the raise.
\<close>

subsection \<open>Python values\<close>

text \<open>
  The values a signal receiver may return and a token may hold.
\<close>

datatype pyval =
    PyNone
  | PyBool bool
  | PyInt int
  | PyStr string
  | PyList "pyval list"

text \<open>
  The source compares a receiver's return value with \<^verbatim>\<open>ret == False\<close>. In Python
  \<^verbatim>\<open>False == False\<close> and \<^verbatim>\<open>0 == False\<close> hold; \<^verbatim>\<open>None\<close>, strings and lists
  are never equal to \<^verbatim>\<open>False\<close>.
\<close>

fun eq_False :: "pyval \<Rightarrow> bool" where
  "eq_False (PyBool b) = (\<not> b)"
| "eq_False (PyInt i) = (i = 0)"
| "eq_False PyNone = False"
| "eq_False (PyStr s) = False"
| "eq_False (PyList xs) = False"

text \<open>
  An attribute or query value that is a string or \<^verbatim>\<open>None\<close> is a \<open>string option\<close>.
  Python's \<^verbatim>\<open>if x:\<close> holds for it when it is neither \<^verbatim>\<open>None\<close> nor the empty
  string.
\<close>

definition truthy :: "string option \<Rightarrow> bool" where
  "truthy x = (case x of None \<Rightarrow> False | Some s \<Rightarrow> s \<noteq> [])"

text \<open>\<^verbatim>\<open>d.get(k, default)\<close> on a mapping.\<close>

definition get_default :: "('k \<rightharpoonup> 'v) \<Rightarrow> 'k \<Rightarrow> 'v \<Rightarrow> 'v" where
  "get_default m k d = (case m k of None \<Rightarrow> d | Some v \<Rightarrow> v)"

text \<open>A token is a dict from field names to values; a dict is true when it is not empty.\<close>

type_synonym token = "(string \<times> pyval) list"

definition token_truthy :: "token option \<Rightarrow> bool" where
  "token_truthy t = (case t of None \<Rightarrow> False | Some d \<Rightarrow> d \<noteq> [])"

subsection \<open>Requests, responses, exceptions\<close>

text \<open>
  The ambient Flask request: \<open>args\<close> is \<^verbatim>\<open>request.args\<close> (lookup gives the first
  value of a key), \<open>headers\<close> is \<^verbatim>\<open>request.headers\<close>, \<open>url\<close> is
  \<^verbatim>\<open>request.url\<close>.
\<close>

record request =
  args :: "string \<rightharpoonup> string"
  headers :: "string \<rightharpoonup> string"
  url :: string
  is_secure :: bool

datatype response = Redirect string

datatype exn =
    KeyError string
  | ExchangeError string
  | ReceiverError string

subsection \<open>The session and the blueprint\<close>

text \<open>
  \<open>oauth_client\<close> is the session's \<^verbatim>\<open>_client\<close>. The session record holds the
  attributes of \<^verbatim>\<open>OAuth2Session\<close> the module reads or writes: \<open>priv_client\<close> is
  \<^verbatim>\<open>_client\<close>, \<open>priv_state\<close> is \<^verbatim>\<open>_state\<close>, and \<open>session_state\<close> is the
  session's own \<^verbatim>\<open>state\<close> attribute (\<open>None\<close> when it is the library's token
  generator, \<open>Some s\<close> when a fixed string was supplied).
\<close>

record oauth_client =
  cl_client_id :: "string option"
  cl_token :: "token option"
  cl_access_token :: "pyval option"

record oauth_session =
  client_id :: "string option"
  priv_client :: oauth_client
  base_url :: string
  token :: "token option"
  priv_state :: "string option"
  session_state :: "string option"
  redirect_uri :: "string option"
  scope :: "string list option"

record blueprint =
  name :: string
  session :: oauth_session
  client_secret :: "string option"
  state :: "string option"
  authorization_url :: "string option"
  authorization_url_params :: "(string \<times> string) list"
  token_url :: "string option"
  token_url_params :: "(string \<times> string) list"
  redirect_url :: "string option"
  redirect_to :: "string option"
  user :: "string option"
  user_id :: "string option"

text \<open>The arguments \<^verbatim>\<open>authorized\<close> passes to \<^verbatim>\<open>session.fetch_token\<close>, and the
  \<^verbatim>\<open>_state\<close> the session holds at that moment.\<close>

record fetch_args =
  fa_token_url :: "string option"
  fa_authorization_response :: string
  fa_client_secret :: "string option"
  fa_params :: "(string \<times> string) list"
  fa_state :: "string option"

subsection \<open>The world\<close>

text \<open>
  A token is stored for a principal: the blueprint's \<^verbatim>\<open>user\<close> and \<^verbatim>\<open>user_id\<close>.
\<close>

type_synonym principal = "string option \<times> string option"

text \<open>
  What a view does to its collaborators, in program order: log records, signals sent,
  writes to the Flask session, the token exchange and writes to the token store.
\<close>

datatype effect =
    LogWarning string "string option" "string option"
  | SendOAuthError string "string option" "string option"
  | SessionSet string string
  | SessionDel string
  | FetchToken fetch_args
  | SendOAuthAuthorized token
  | StoreSet principal token

record world =
  bp :: blueprint
  flask_session :: "string \<rightharpoonup> string"
  token_store :: "principal \<rightharpoonup> token"
  entropy :: nat
  trace :: "effect list"

text \<open>The call \<^verbatim>\<open>request\<close> hands to the superclass, and what comes back.\<close>

record http_call =
  hc_method :: string
  hc_url :: string
  hc_data :: "string option"
  hc_headers :: "(string \<times> string) list option"

datatype http_response = Response nat string

text \<open>
  The functions of the collaborators. \<open>url_for\<close> is \<^verbatim>\<open>flask.url_for(endpoint)\<close>
  and \<open>url_for_external\<close> is the call of \<^verbatim>\<open>login\<close> with \<^verbatim>\<open>next\<close>,
  \<^verbatim>\<open>_external=True\<close> and \<^verbatim>\<open>_scheme\<close>. \<open>with_scheme\<close>, \<open>relative\<close> and
  \<open>url_scheme\<close> are the methods and the \<^verbatim>\<open>scheme\<close> property of \<^verbatim>\<open>URLObject\<close>.
  \<open>fetch_token\<close> is the exchange of requests\_oauthlib, which returns a token or raises.
  \<open>receivers\<close> are the functions connected to the \<^verbatim>\<open>oauth_authorized\<close> signal, each
  with a name, called with the sender and the token; a receiver returns a value or
  raises. \<open>generate_token\<close> is the library's
  token generator: its \<open>n\<close>-th call returns \<open>generate_token n\<close>, and the world
  counts the calls in \<open>entropy\<close>. \<open>prepare_request_uri\<close> builds the authorization URL
  from the endpoint, the redirect URI, the scope, the state and the extra parameters.
  \<open>populate_attributes\<close> is the client's \<^verbatim>\<open>_populate_attributes\<close>, \<open>url_object\<close>
  is the constructor \<^verbatim>\<open>URLObject(base_url)\<close>, and \<open>super_request\<close> is the
  \<^verbatim>\<open>request\<close> method of the superclass, which sends the call.

  The exchange and the receivers of \<^verbatim>\<open>oauth_authorized\<close> can raise. The
  \<^verbatim>\<open>oauth_error\<close> signal is recorded as sent, and \<open>url_for\<close> is asked for
  endpoints the application has. What the library does to its own attributes during the exchange is
  not part of the model.
\<close>

record env =
  url_for :: "string \<Rightarrow> string"
  url_for_external :: "string \<Rightarrow> string option \<Rightarrow> string \<Rightarrow> string"
  with_scheme :: "string \<Rightarrow> string \<Rightarrow> string"
  relative :: "string \<Rightarrow> string \<Rightarrow> string"
  url_scheme :: "string \<Rightarrow> string"
  fetch_token :: "fetch_args \<Rightarrow> exn + token"
  receivers :: "(string \<times> (blueprint \<Rightarrow> token \<Rightarrow> exn + pyval)) list"
  generate_token :: "nat \<Rightarrow> string"
  prepare_request_uri ::
    "string option \<Rightarrow> string option \<Rightarrow> string list option \<Rightarrow> string \<Rightarrow> (string \<times> string) list \<Rightarrow> string"
  populate_attributes :: "token \<Rightarrow> oauth_client \<Rightarrow> oauth_client"
  url_object :: "string option \<Rightarrow> string"
  super_request :: "http_call \<Rightarrow> http_response"

definition emit :: "effect \<Rightarrow> world \<Rightarrow> world" where
  "emit x w = w\<lparr>trace := trace w @ [x]\<rparr>"

subsection \<open>The token property of the base blueprint\<close>

definition principal_of :: "blueprint \<Rightarrow> principal" where
  "principal_of b = (user b, user_id b)"

text \<open>
  Modelled from the spec: \<^verbatim>\<open>BaseOAuthConsumerBlueprint\<close> of
  \<^verbatim>\<open>flask_dance/consumer/base.py\<close>, whose \<^verbatim>\<open>token\<close> property and \<^verbatim>\<open>set_token\<close>
  the module uses, is not among the sources. The spec: ``\<^verbatim>\<open>set_token(token)\<close>: write
  through to TokenStore keyed by the current principal/user context'', with the store
  contract \<^verbatim>\<open>set(principal, Token)\<close>.
\<close>

definition set_token :: "token \<Rightarrow> world \<Rightarrow> world" where
  "set_token t w =
     emit (StoreSet (principal_of (bp w)) t)
       (w\<lparr>token_store := (token_store w)(principal_of (bp w) \<mapsto> t)\<rparr>)"

text \<open>
  Modelled from the spec: reading the \<^verbatim>\<open>token\<close> property of the base blueprint
  (\<^verbatim>\<open>flask_dance/consumer/base.py\<close>, not among the sources). The spec: ``read from
  TokenStore'', with the store contract \<^verbatim>\<open>get(principal) -> Token|absent\<close>.
\<close>

definition get_token :: "world \<Rightarrow> token option" where
  "get_token w = token_store w (principal_of (bp w))"

subsection \<open>The client\_id property\<close>

text \<open>
  \<^verbatim>\<open>
  @property
  def client_id(self):
      return self.session.client_id

  @client_id.setter
  def client_id(self, value):
      self.session.client_id = value
      self.session._client.client_id = value
  \<close>
\<close>

definition client_id_get :: "blueprint \<Rightarrow> string option" where
  "client_id_get self = client_id (session self)"

definition client_id_set :: "string option \<Rightarrow> blueprint \<Rightarrow> blueprint" where
  "client_id_set v self =
     (let s1 = (session self)\<lparr>client_id := v\<rparr>;
          s2 = s1\<lparr>priv_client := (priv_client s1)\<lparr>cl_client_id := v\<rparr>\<rparr>
      in self\<lparr>session := s2\<rparr>)"

subsection \<open>The session\<close>

text \<open>
  What the constructor of the requests\_oauthlib superclass leaves in the attributes
  the module uses, for the keyword arguments \<^verbatim>\<open>client_id\<close>, \<^verbatim>\<open>state\<close> and
  \<^verbatim>\<open>scope\<close>: the client id is kept on the session and on its client, the session's
  \<^verbatim>\<open>state\<close> is \<^verbatim>\<open>state or generate_token\<close>, and no token is loaded.
\<close>

definition BaseOAuth2Session_init ::
  "string option \<Rightarrow> string option \<Rightarrow> string list option \<Rightarrow> oauth_session" where
  "BaseOAuth2Session_init cid st sc =
     \<lparr>client_id = cid,
      priv_client = \<lparr>cl_client_id = cid, cl_token = None, cl_access_token = None\<rparr>,
      base_url = [],
      token = None,
      priv_state = st,
      session_state = (if truthy st then st else None),
      redirect_uri = None,
      scope = sc\<rparr>"

text \<open>
  \<^verbatim>\<open>
  def __init__(self, blueprint=None, base_url=None, *args, **kwargs):
      super(OAuth2Session, self).__init__(*args, **kwargs)
      self.blueprint = blueprint
      self.base_url = URLObject(base_url)
  \<close>
  The session is a field of the blueprint record, so the back-reference
  \<^verbatim>\<open>self.blueprint\<close> is the record that holds it.
\<close>

definition OAuth2Session_init ::
  "env \<Rightarrow> string option \<Rightarrow> string option \<Rightarrow> string option \<Rightarrow> string list option \<Rightarrow> oauth_session" where
  "OAuth2Session_init e b cid st sc = (BaseOAuth2Session_init cid st sc)\<lparr>base_url := url_object e b\<rparr>"

text \<open>
  \<^verbatim>\<open>
  def request(self, method, url, data=None, headers=None, **kwargs):
      if self.base_url:
          url = self.base_url.relative(url)
      return super(OAuth2Session, self).request(
          method=method, url=url, data=data, headers=headers, **kwargs
      )
  \<close>
  \<open>request_call\<close> is the call handed to the superclass.
\<close>

definition request_call ::
  "env \<Rightarrow> oauth_session \<Rightarrow> string \<Rightarrow> string \<Rightarrow> string option \<Rightarrow> (string \<times> string) list option \<Rightarrow> http_call" where
  "request_call e s m u d h =
     \<lparr>hc_method = m,
      hc_url = (if base_url s \<noteq> [] then relative e (base_url s) u else u),
      hc_data = d,
      hc_headers = h\<rparr>"

definition OAuth2Session_request ::
  "env \<Rightarrow> oauth_session \<Rightarrow> string \<Rightarrow> string \<Rightarrow> string option \<Rightarrow> (string \<times> string) list option \<Rightarrow> http_response" where
  "OAuth2Session_request e s m u d h = super_request e (request_call e s m u d h)"

text \<open>
  The two methods of the requests\_oauthlib session that \<^verbatim>\<open>login\<close> reaches.
  \<^verbatim>\<open>new_state\<close> calls the session's \<^verbatim>\<open>state\<close> when it is the generator and
  takes it as it is when it is a string, and keeps the result in \<^verbatim>\<open>_state\<close>.
  \<^verbatim>\<open>authorization_url(url, state=None, **kwargs)\<close> starts with
  \<^verbatim>\<open>state = state or self.new_state()\<close> and returns the prepared URL and that state.
\<close>

definition new_state :: "env \<Rightarrow> oauth_session \<Rightarrow> nat \<Rightarrow> string \<times> oauth_session \<times> nat" where
  "new_state e s n =
     (case session_state s of
        None \<Rightarrow> (generate_token e n, s\<lparr>priv_state := Some (generate_token e n)\<rparr>, Suc n)
      | Some c \<Rightarrow> (c, s\<lparr>priv_state := Some c\<rparr>, n))"

definition session_authorization_url ::
  "env \<Rightarrow> oauth_session \<Rightarrow> string option \<Rightarrow> string option \<Rightarrow> (string \<times> string) list \<Rightarrow> nat
     \<Rightarrow> (string \<times> string) \<times> oauth_session \<times> nat" where
  "session_authorization_url e s u st kwargs n =
     (let (st', s', n') = (if truthy st then (the st, s, n) else new_state e s n)
      in ((prepare_request_uri e u (redirect_uri s') (scope s') st' kwargs, st'), s', n'))"

subsection \<open>The blueprint\<close>

text \<open>
  The constructor arguments the module keeps (those forwarded to \<^verbatim>\<open>flask.Blueprint\<close>
  and the token storage are left out). \<^verbatim>\<open>authorization_url_params or {}\<close> and
  \<^verbatim>\<open>token_url_params or {}\<close> turn a missing dict into the empty one.
\<close>

record config =
  cfg_name :: string
  cfg_client_id :: "string option"
  cfg_client_secret :: "string option"
  cfg_scope :: "string list option"
  cfg_state :: "string option"
  cfg_base_url :: "string option"
  cfg_authorization_url :: "string option"
  cfg_authorization_url_params :: "(string \<times> string) list option"
  cfg_token_url :: "string option"
  cfg_token_url_params :: "(string \<times> string) list option"
  cfg_redirect_url :: "string option"
  cfg_redirect_to :: "string option"

definition OAuth2ConsumerBlueprint_init :: "env \<Rightarrow> config \<Rightarrow> blueprint" where
  "OAuth2ConsumerBlueprint_init e c =
     \<lparr>name = cfg_name c,
      session = OAuth2Session_init e (cfg_base_url c) (cfg_client_id c) (cfg_state c) (cfg_scope c),
      client_secret = cfg_client_secret c,
      state = cfg_state c,
      authorization_url = cfg_authorization_url c,
      authorization_url_params = (case cfg_authorization_url_params c of None \<Rightarrow> [] | Some ps \<Rightarrow> ps),
      token_url = cfg_token_url c,
      token_url_params = (case cfg_token_url_params c of None \<Rightarrow> [] | Some ps \<Rightarrow> ps),
      redirect_url = cfg_redirect_url c,
      redirect_to = cfg_redirect_to c,
      user = None,
      user_id = None\<rparr>"

text \<open>\<^verbatim>\<open>"{bp.name}_oauth_state".format(bp=self)\<close>\<close>

definition state_key :: "blueprint \<Rightarrow> string" where
  "state_key self = name self @ ''_oauth_state''"

subsection \<open>The login view\<close>

text \<open>
  \<^verbatim>\<open>
  secure = request.is_secure or request.headers.get("X-Forwarded-Proto", "http") == "https"
  self.session.redirect_uri = url_for(
      ".authorized", next=request.args.get('next'), _external=True,
      _scheme="https" if secure else "http",
  )
  url, state = self.session.authorization_url(
      self.authorization_url, state=self.state,
      **self.authorization_url_params
  )
  state_key = "{bp.name}_oauth_state".format(bp=self)
  flask.session[state_key] = state
  return redirect(url)
  \<close>
\<close>

definition login :: "env \<Rightarrow> request \<Rightarrow> world \<Rightarrow> response \<times> world" where
  "login e req w =
     (let self = bp w;
          secure = (is_secure req \<or> get_default (headers req) ''X-Forwarded-Proto'' ''http'' = ''https'');
          s1 = (session self)\<lparr>redirect_uri :=
                 Some (url_for_external e ''.authorized'' (args req ''next'')
                         (if secure then ''https'' else ''http''))\<rparr>;
          ((u, st), s2, n) =
             session_authorization_url e s1 (authorization_url self) (state self)
               (authorization_url_params self) (entropy w);
          w1 = w\<lparr>bp := self\<lparr>session := s2\<rparr>, entropy := n\<rparr>;
          w2 = emit (SessionSet (state_key self) st)
                 (w1\<lparr>flask_session := (flask_session w1)(state_key self \<mapsto> st)\<rparr>)
      in (Redirect u, w2))"

subsection \<open>The authorized view\<close>

text \<open>
  The redirect target, the first statement of \<^verbatim>\<open>authorized\<close>:
  \<^verbatim>\<open>
  if "next" in request.args:
      next_url = request.args["next"]
  elif self.redirect_url:
      next_url = self.redirect_url
  elif self.redirect_to:
      next_url = url_for(self.redirect_to)
  else:
      next_url = "/"
  \<close>
\<close>

definition next_url :: "env \<Rightarrow> request \<Rightarrow> blueprint \<Rightarrow> string" where
  "next_url e req self =
     (if ''next'' \<in> dom (args req) then the (args req ''next'')
      else if truthy (redirect_url self) then the (redirect_url self)
      else if truthy (redirect_to self) then url_for e (the (redirect_to self))
      else ''/'')"

text \<open>
  \<^verbatim>\<open>
  url = URLObject(request.url)
  if request.headers.get("X-Forwarded-Proto", "http") == "https":
      url = url.with_scheme("https")
  \<close>
\<close>

definition callback_url :: "env \<Rightarrow> request \<Rightarrow> string" where
  "callback_url e req =
     (if get_default (headers req) ''X-Forwarded-Proto'' ''http'' = ''https''
      then with_scheme e (url req) ''https'' else url req)"

text \<open>
  The arguments of \<^verbatim>\<open>self.session.fetch_token(self.token_url,
  authorization_response=url, client_secret=self.client_secret,
  **self.token_url_params)\<close>, with the \<^verbatim>\<open>_state\<close> of the session it is called on.
\<close>

definition exchange_args :: "env \<Rightarrow> request \<Rightarrow> blueprint \<Rightarrow> fetch_args" where
  "exchange_args e req self =
     \<lparr>fa_token_url = token_url self,
      fa_authorization_response = callback_url e req,
      fa_client_secret = client_secret self,
      fa_params = token_url_params self,
      fa_state = priv_state (session self)\<rparr>"

text \<open>\<^verbatim>\<open>self.session._state = st\<close>\<close>

definition adopt_state :: "string \<Rightarrow> blueprint \<Rightarrow> blueprint" where
  "adopt_state st self = self\<lparr>session := (session self)\<lparr>priv_state := Some st\<rparr>\<rparr>"

text \<open>
  \<^verbatim>\<open>oauth_authorized.send(self, token=token)\<close> calls the receivers one after the
  other and returns each receiver with what it returned. It catches nothing: the first
  receiver that raises ends the send, and the view, with its exception.
\<close>

fun send_to ::
  "(string \<times> (blueprint \<Rightarrow> token \<Rightarrow> exn + pyval)) list \<Rightarrow> blueprint \<Rightarrow> token
     \<Rightarrow> exn + (string \<times> pyval) list" where
  "send_to [] self t = Inr []"
| "send_to ((func, f) # rs) self t =
     (case f self t of
        Inl x \<Rightarrow> Inl x
      | Inr ret \<Rightarrow>
         (case send_to rs self t of
            Inl x \<Rightarrow> Inl x
          | Inr results \<Rightarrow> Inr ((func, ret) # results)))"

definition send_authorized :: "env \<Rightarrow> blueprint \<Rightarrow> token \<Rightarrow> exn + (string \<times> pyval) list" where
  "send_authorized e self t = send_to (receivers e) self t"

text \<open>
  The view itself. After the redirect target it looks for an error reported by the
  provider (\<^verbatim>\<open>error = request.args.get("error")\<close>, \<^verbatim>\<open>if error:\<close>), logs and signals
  it and returns. Otherwise it moves the stored state from the Flask session into the
  session's \<^verbatim>\<open>_state\<close> (\<^verbatim>\<open>flask.session[state_key]\<close> raises \<^verbatim>\<open>KeyError\<close> when
  the key is missing), deletes the key, rebuilds the callback URL, exchanges the code for
  a token (an exception of the exchange leaves the view), sends the token to the
  receivers (an exception of a receiver leaves the view too), and stores it
  (\<^verbatim>\<open>self.token = token\<close>) unless one of them returned something equal to
  \<^verbatim>\<open>False\<close>:
  \<^verbatim>\<open>
  results = oauth_authorized.send(self, token=token) or []
  if not any(ret == False for func, ret in results):
      self.token = token
  return redirect(next_url)
  \<close>
\<close>

definition authorized :: "env \<Rightarrow> request \<Rightarrow> world \<Rightarrow> (exn + response) \<times> world" where
  "authorized e req w =
     (let self = bp w;
          nu = next_url e req self;
          error = args req ''error''
      in
      if truthy error then
        (let error_desc = args req ''error_description'';
             error_uri = args req ''error_uri'';
             w1 = emit (LogWarning (the error) error_desc error_uri) w;
             w2 = emit (SendOAuthError (the error) error_desc error_uri) w1
         in (Inr (Redirect nu), w2))
      else
        (case flask_session w (state_key self) of
           None \<Rightarrow> (Inl (KeyError (state_key self)), w)
         | Some st \<Rightarrow>
            (let self1 = adopt_state st self;
                 w1 = w\<lparr>bp := self1\<rparr>;
                 w2 = emit (SessionDel (state_key self))
                        (w1\<lparr>flask_session := (flask_session w1)(state_key self := None)\<rparr>);
                 fa = exchange_args e req self1;
                 w3 = emit (FetchToken fa) w2
             in case fetch_token e fa of
                  Inl x \<Rightarrow> (Inl x, w3)
                | Inr tok \<Rightarrow>
                   (let w4 = emit (SendOAuthAuthorized tok) w3
                    in case send_authorized e self1 tok of
                         Inl x \<Rightarrow> (Inl x, w4)
                       | Inr results \<Rightarrow>
                          (let w5 = (if \<not> list_ex (\<lambda>(func, ret). eq_False ret) results
                                     then set_token tok w4 else w4)
                           in (Inr (Redirect nu), w5))))))"

subsection \<open>Loading the token\<close>

text \<open>
  \<^verbatim>\<open>
  def load_token(self):
      token = self.token
      self.session.token = token
      self.session._client.token = token
      if token:
          self.session._client._populate_attributes(token)
  \<close>
\<close>

definition load_token :: "env \<Rightarrow> world \<Rightarrow> world" where
  "load_token e w =
     (let self = bp w;
          tok = get_token w;
          s1 = (session self)\<lparr>token := tok\<rparr>;
          c1 = (priv_client s1)\<lparr>cl_token := tok\<rparr>;
          c2 = (if token_truthy tok then populate_attributes e (the tok) c1 else c1)
      in w\<lparr>bp := self\<lparr>session := s1\<lparr>priv_client := c2\<rparr>\<rparr>\<rparr>)"

text \<open>
  The session's own \<^verbatim>\<open>load_token\<close> sets the principal on its blueprint and asks it
  to load:
  \<^verbatim>\<open>
  def load_token(self, user=None, user_id=None):
      if self.blueprint:
          self.blueprint.user = user
          self.blueprint.user_id = user_id
          self.blueprint.load_token()
  \<close>
  The session of the world is the one its blueprint built with \<^verbatim>\<open>blueprint=self\<close>,
  so \<^verbatim>\<open>self.blueprint\<close> is set.
\<close>

definition OAuth2Session_load_token :: "env \<Rightarrow> string option \<Rightarrow> string option \<Rightarrow> world \<Rightarrow> world" where
  "OAuth2Session_load_token e usr uid w = load_token e (w\<lparr>bp := (bp w)\<lparr>user := usr, user_id := uid\<rparr>\<rparr>)"

text \<open>
  Modelled from the spec: the \<^verbatim>\<open>authorized\<close> property of the session, which the tests
  read on the \<^verbatim>\<open>OAuth2Session\<close> of \<^verbatim>\<open>flask_dance/consumer/requests.py\<close>; that
  module is not among the sources. The spec: ``true iff a non-empty token is currently
  loaded''.
\<close>

definition session_authorized :: "oauth_session \<Rightarrow> bool" where
  "session_authorized s = (case token s of None \<Rightarrow> False | Some d \<Rightarrow> d \<noteq> [])"

subsection \<open>Sequences of calls\<close>

text \<open>
  What can happen to a world between two calls of a view: a view runs, the session loads
  the token of some principal, the application assigns the client id, or the next request
  comes from another browser and brings that browser's Flask session. \<open>run\<close> makes
  the calls of a list one after the other; a view that raises leaves the world it had
  reached.
\<close>

datatype call =
    Login request
  | Authorized request
  | LoadToken "string option" "string option"
  | SetClientId "string option"
  | SwitchBrowser "string \<rightharpoonup> string"

fun step :: "env \<Rightarrow> call \<Rightarrow> world \<Rightarrow> world" where
  "step e (Login req) w = snd (login e req w)"
| "step e (Authorized req) w = snd (authorized e req w)"
| "step e (LoadToken usr uid) w = OAuth2Session_load_token e usr uid w"
| "step e (SetClientId v) w = w\<lparr>bp := client_id_set v (bp w)\<rparr>"
| "step e (SwitchBrowser fs) w = w\<lparr>flask_session := fs\<rparr>"

fun run :: "env \<Rightarrow> call list \<Rightarrow> world \<Rightarrow> world" where
  "run e [] w = w"
| "run e (c # cs) w = run e cs (step e c w)"

subsection \<open>Reading the trace\<close>

text \<open>The effects a view added to the trace, between the world before and the world after.\<close>

definition effects_of :: "world \<Rightarrow> world \<Rightarrow> effect list" where
  "effects_of w w' = drop (length (trace w)) (trace w')"

text \<open>
  What each receiver of \<^verbatim>\<open>oauth_authorized\<close> does when it is called with the sender
  and the token: the value it returns, or the exception it raises.
\<close>

definition replies :: "env \<Rightarrow> blueprint \<Rightarrow> token \<Rightarrow> (exn + pyval) list" where
  "replies e self t = map (\<lambda>(func, f). f self t) (receivers e)"

fun is_fetch :: "effect \<Rightarrow> bool" where
  "is_fetch (FetchToken fa) = True"
| "is_fetch _ = False"

fun is_store_set :: "effect \<Rightarrow> bool" where
  "is_store_set (StoreSet p t) = True"
| "is_store_set _ = False"


text \<open>The world at the moment of the exchange: the state adopted, the key deleted.\<close>

definition before_exchange :: "env \<Rightarrow> request \<Rightarrow> string \<Rightarrow> world \<Rightarrow> world" where
  "before_exchange e req st w =
     w\<lparr>bp := adopt_state st (bp w),
       flask_session := (flask_session w)(state_key (bp w) := None),
       trace := trace w @
         [SessionDel (state_key (bp w)),
          FetchToken (exchange_args e req (adopt_state st (bp w)))]\<rparr>"

subsection \<open>The redirect target in the words of the specification\<close>

text \<open>
  The specification orders the sources of the redirect target: the \<^verbatim>\<open>next\<close> query
  parameter if present, else the static redirect URL if set, else the URL of the named
  endpoint if set, else the root path. An option is set when it holds a non-empty string
  (\<^verbatim>\<open>None\<close> and \<^verbatim>\<open>""\<close> are what an unset option holds). This definition follows
  those words; \<open>next_url\<close> above follows the source.
\<close>

definition precedence_target :: "env \<Rightarrow> request \<Rightarrow> blueprint \<Rightarrow> string" where
  "precedence_target e req self =
     (case args req ''next'' of
        Some n \<Rightarrow> n
      | None \<Rightarrow>
         (case redirect_url self of
            Some (c # cs) \<Rightarrow> c # cs
          | _ \<Rightarrow>
             (case redirect_to self of
                Some (c # cs) \<Rightarrow> url_for e (c # cs)
              | _ \<Rightarrow> ''/'')))"

subsection \<open>The contract of URL resolution\<close>

text \<open>
  \<^verbatim>\<open>URLObject.relative\<close> resolves a reference against a base; a reference that has a
  scheme of its own is absolute and is returned as it is. The session relies on this
  for absolute request URLs.
\<close>

definition absolute_unchanged :: "env \<Rightarrow> bool" where
  "absolute_unchanged e = (\<forall>b u. url_scheme e u \<noteq> [] \<longrightarrow> relative e b u = u)"

subsection \<open>A sample application\<close>

text \<open>
  A blueprint named \<^verbatim>\<open>github\<close> and stand-ins for its collaborators, used to run the
  views on concrete requests. The token is \<^verbatim>\<open>FAKE_OAUTH2_TOKEN\<close> of the tests.
\<close>

definition example_token :: token where
  "example_token =
     [(''access_token'', PyStr ''deadbeef''),
      (''scope'', PyList [PyStr ''custom'']),
      (''token_type'', PyStr ''bearer'')]"

definition example_scheme :: "string \<Rightarrow> string" where
  "example_scheme u = (if CHR '':'' \<in> set u then takeWhile (\<lambda>c. c \<noteq> CHR '':'') u else [])"

definition example_env :: env where
  "example_env =
     \<lparr>url_for = (\<lambda>ep. CHR ''/'' # ep),
      url_for_external = (\<lambda>ep nxt sch. sch @ ''://app.example.com/login/github/authorized''),
      with_scheme = (\<lambda>u sch. sch @ dropWhile (\<lambda>c. c \<noteq> CHR '':'') u),
      relative = (\<lambda>b u. if example_scheme u \<noteq> [] then u else b @ u),
      url_scheme = example_scheme,
      fetch_token = (\<lambda>fa. if fa_state fa = Some ''st4te'' then Inr example_token
                           else Inl (ExchangeError ''mismatching_state'')),
      receivers = [],
      generate_token = (\<lambda>n. replicate (Suc n) CHR ''x''),
      prepare_request_uri = (\<lambda>u r sc st kw. (case u of None \<Rightarrow> [] | Some x \<Rightarrow> x) @ ''?state='' @ st),
      populate_attributes = (\<lambda>t c. c\<lparr>cl_access_token := map_of t ''access_token''\<rparr>),
      url_object = (\<lambda>b. case b of None \<Rightarrow> [] | Some x \<Rightarrow> x),
      super_request = (\<lambda>c. Response 200 (hc_url c))\<rparr>"

text \<open>
  The same application with other receivers: one that rejects every token with
  \<^verbatim>\<open>False\<close>, one that rejects with \<^verbatim>\<open>0\<close>, receivers that answer without
  rejecting (\<^verbatim>\<open>None\<close>, \<^verbatim>\<open>True\<close>, \<^verbatim>\<open>""\<close>, \<^verbatim>\<open>[]\<close>, \<^verbatim>\<open>1\<close>), and one that
  raises.
\<close>

definition vetoing_env :: env where
  "vetoing_env = example_env\<lparr>receivers :=
     [(''audit'', \<lambda>b t. Inr PyNone), (''check_scope'', \<lambda>b t. Inr (PyBool False))]\<rparr>"

definition zero_env :: env where
  "zero_env = example_env\<lparr>receivers := [(''count_scopes'', \<lambda>b t. Inr (PyInt 0))]\<rparr>"

definition approving_env :: env where
  "approving_env = example_env\<lparr>receivers :=
     [(''audit'', \<lambda>b t. Inr PyNone), (''check_scope'', \<lambda>b t. Inr (PyBool True)),
      (''note'', \<lambda>b t. Inr (PyStr [])), (''scopes'', \<lambda>b t. Inr (PyList [])),
      (''count'', \<lambda>b t. Inr (PyInt 1))]\<rparr>"

definition raising_env :: env where
  "raising_env = example_env\<lparr>receivers :=
     [(''audit'', \<lambda>b t. Inr PyNone), (''notify'', \<lambda>b t. Inl (ReceiverError ''boom''))]\<rparr>"

definition example_config :: config where
  "example_config =
     \<lparr>cfg_name = ''github'',
      cfg_client_id = Some ''cid'',
      cfg_client_secret = Some ''secret'',
      cfg_scope = None,
      cfg_state = None,
      cfg_base_url = Some ''https://api.example.com/v1/'',
      cfg_authorization_url = Some ''https://provider/oauth/authorize'',
      cfg_authorization_url_params = None,
      cfg_token_url = Some ''https://provider/oauth/token'',
      cfg_token_url_params = None,
      cfg_redirect_url = None,
      cfg_redirect_to = None\<rparr>"

text \<open>The sample configuration with a fixed \<^verbatim>\<open>state\<close>.\<close>

definition fixed_state_config :: config where
  "fixed_state_config = example_config\<lparr>cfg_state := Some ''fixed''\<rparr>"

definition world_of :: "config \<Rightarrow> world" where
  "world_of c =
     \<lparr>bp = OAuth2ConsumerBlueprint_init example_env c,
      flask_session = Map.empty,
      token_store = Map.empty,
      entropy = 0,
      trace = []\<rparr>"

text \<open>The world after a login stored the state \<^verbatim>\<open>st4te\<close>.\<close>

definition stored_world :: "config \<Rightarrow> world" where
  "stored_world c = (world_of c)\<lparr>flask_session := [''github_oauth_state'' \<mapsto> ''st4te'']\<rparr>"

definition login_request :: request where
  "login_request =
     \<lparr>args = Map.empty, headers = Map.empty,
      url = ''http://app.example.com/login/github'', is_secure = False\<rparr>"

definition callback_request :: request where
  "callback_request =
     \<lparr>args = [''code'' \<mapsto> ''abc'', ''state'' \<mapsto> ''st4te''], headers = Map.empty,
      url = ''http://app.example.com/login/github/authorized?code=abc&state=st4te'',
      is_secure = False\<rparr>"

text \<open>A request with the query parameter \<^verbatim>\<open>next\<close> added.\<close>

definition with_next :: "string \<Rightarrow> request \<Rightarrow> request" where
  "with_next n req = req\<lparr>args := (args req)(''next'' \<mapsto> n)\<rparr>"

text \<open>The sample configuration with a static redirect URL and a redirect endpoint.\<close>

definition redirect_config :: "string option \<Rightarrow> string option \<Rightarrow> config" where
  "redirect_config u ep = example_config\<lparr>cfg_redirect_url := u, cfg_redirect_to := ep\<rparr>"

definition error_request :: request where
  "error_request =
     \<lparr>args = [''error'' \<mapsto> ''access_denied'', ''error_description'' \<mapsto> ''denied by user''],
      headers = Map.empty,
      url = ''http://app.example.com/login/github/authorized?error=access_denied&error_description=denied+by+user'',
      is_secure = False\<rparr>"


section \<open>Properties\<close>

subsection \<open>The branches of the authorized view\<close>

lemma authorized_error_branch:
  assumes "truthy (args req ''error'')"
  shows "authorized e req w =
           (Inr (Redirect (next_url e req (bp w))),
            w\<lparr>trace := trace w @
               [LogWarning (the (args req ''error'')) (args req ''error_description'') (args req ''error_uri''),
                SendOAuthError (the (args req ''error'')) (args req ''error_description'') (args req ''error_uri'')]\<rparr>)"
  using assms by (simp add: authorized_def Let_def emit_def)

lemma authorized_no_state:
  assumes "\<not> truthy (args req ''error'')"
      and "flask_session w (state_key (bp w)) = None"
  shows "authorized e req w = (Inl (KeyError (state_key (bp w))), w)"
  using assms by (simp add: authorized_def Let_def)

lemma authorized_exchange_fails:
  assumes "\<not> truthy (args req ''error'')"
      and "flask_session w (state_key (bp w)) = Some st"
      and "fetch_token e (exchange_args e req (adopt_state st (bp w))) = Inl x"
  shows "authorized e req w = (Inl x, before_exchange e req st w)"
  using assms by (simp add: authorized_def Let_def emit_def before_exchange_def)

lemma authorized_receiver_raises:
  assumes "\<not> truthy (args req ''error'')"
      and "flask_session w (state_key (bp w)) = Some st"
      and "fetch_token e (exchange_args e req (adopt_state st (bp w))) = Inr tok"
      and "send_authorized e (adopt_state st (bp w)) tok = Inl x"
  shows "authorized e req w = (Inl x, emit (SendOAuthAuthorized tok) (before_exchange e req st w))"
  using assms by (simp add: authorized_def Let_def emit_def before_exchange_def)

lemma authorized_exchange_succeeds:
  assumes "\<not> truthy (args req ''error'')"
      and "flask_session w (state_key (bp w)) = Some st"
      and "fetch_token e (exchange_args e req (adopt_state st (bp w))) = Inr tok"
      and "send_authorized e (adopt_state st (bp w)) tok = Inr results"
  shows "authorized e req w =
          (Inr (Redirect (next_url e req (bp w))),
           (if \<not> list_ex (\<lambda>(func, ret). eq_False ret) results
            then set_token tok (emit (SendOAuthAuthorized tok) (before_exchange e req st w))
            else emit (SendOAuthAuthorized tok) (before_exchange e req st w)))"
  using assms by (simp add: authorized_def Let_def emit_def before_exchange_def)

text \<open>What \<^verbatim>\<open>ret == False\<close> accepts.\<close>

lemma eq_False_iff: "eq_False v \<longleftrightarrow> v = PyBool False \<or> v = PyInt 0"
  by (cases v) auto

text \<open>The send returns exactly when no receiver raises, and then with their values.\<close>

lemma send_to_returns:
  "send_to rs self t = Inr results \<Longrightarrow>
     map (\<lambda>(func, f). f self t) rs = map (\<lambda>(func, ret). Inr ret) results"
proof (induction rs arbitrary: results)
  case Nil
  then show ?case by simp
next
  case (Cons r rs)
  obtain func f where r: "r = (func, f)"
    by (cases r)
  from Cons.prems r obtain ret rest where
    "f self t = Inr ret" "send_to rs self t = Inr rest" "results = (func, ret) # rest"
    by (auto split: sum.splits)
  with Cons.IH [of rest] r show ?case
    by simp
qed

lemma send_to_raises:
  "Inl x \<in> set (map (\<lambda>(func, f). f self t) rs) \<Longrightarrow> \<exists>y. send_to rs self t = Inl y"
proof (induction rs)
  case Nil
  then show ?case by simp
next
  case (Cons r rs)
  obtain func f where r: "r = (func, f)"
    by (cases r)
  show ?case
  proof (cases "f self t")
    case (Inl y)
    with r show ?thesis by simp
  next
    case (Inr ret)
    with Cons r obtain y where "send_to rs self t = Inl y"
      by auto
    with Inr r show ?thesis by simp
  qed
qed

lemma send_to_all_return:
  "\<forall>r \<in> set (map (\<lambda>(func, f). f self t) rs). \<exists>v. r = Inr v \<Longrightarrow> \<exists>results. send_to rs self t = Inr results"
proof (induction rs)
  case Nil
  then show ?case by simp
next
  case (Cons r rs)
  obtain func f where r: "r = (func, f)"
    by (cases r)
  from Cons.prems r obtain ret where "f self t = Inr ret"
    by auto
  moreover from Cons obtain rest where "send_to rs self t = Inr rest"
    by auto
  ultimately show ?case
    using r by simp
qed

lemma veto_iff:
  assumes "send_authorized e self tok = Inr results"
  shows "list_ex (\<lambda>(func, ret). eq_False ret) results \<longleftrightarrow>
         Inr (PyBool False) \<in> set (replies e self tok) \<or> Inr (PyInt 0) \<in> set (replies e self tok)"
proof -
  from assms have "replies e self tok = map (\<lambda>(func, ret). Inr ret) results"
    unfolding replies_def send_authorized_def by (rule send_to_returns)
  then show ?thesis
    by (force simp: list_ex_iff eq_False_iff split_beta)
qed

lemma next_url_precedence: "next_url e req self = precedence_target e req self"
  by (cases "args req ''next''")
     (auto simp: next_url_def precedence_target_def truthy_def dom_def
           split: option.splits list.splits)

lemma authorized_redirects_to_next_url:
  assumes "fst (authorized e req w) = Inr r"
  shows "r = Redirect (next_url e req (bp w))"
proof (cases "truthy (args req ''error'')")
  case True
  from authorized_error_branch [OF True, of e w] assms show ?thesis
    by simp
next
  case False
  show ?thesis
  proof (cases "flask_session w (state_key (bp w))")
    case None
    from authorized_no_state [OF False None, of e] assms show ?thesis
      by simp
  next
    case (Some st)
    show ?thesis
    proof (cases "fetch_token e (exchange_args e req (adopt_state st (bp w)))")
      case (Inl x)
      from authorized_exchange_fails [OF False Some Inl] assms show ?thesis
        by simp
    next
      case fetched: (Inr tok)
      show ?thesis
      proof (cases "send_authorized e (adopt_state st (bp w)) tok")
        case (Inl x)
        from authorized_receiver_raises [OF False Some fetched Inl] assms show ?thesis
          by simp
      next
        case (Inr results)
        from authorized_exchange_succeeds [OF False Some fetched Inr] assms show ?thesis
          by simp
      qed
    qed
  qed
qed

lemma authorized_after_validation:
  assumes "\<not> truthy (args req ''error'')"
      and "flask_session w (state_key (bp w)) = Some st"
  shows "bp (snd (authorized e req w)) = adopt_state st (bp w)"
    and "flask_session (snd (authorized e req w)) = (flask_session w)(state_key (bp w) := None)"
    and "take 2 (effects_of w (snd (authorized e req w))) =
           [SessionDel (state_key (bp w)), FetchToken (exchange_args e req (adopt_state st (bp w)))]"
proof -
  let ?w2 = "before_exchange e req st w"
  have shape: "snd (authorized e req w) = ?w2 \<or>
               snd (authorized e req w) = emit (SendOAuthAuthorized tok) ?w2 \<or>
               snd (authorized e req w) = set_token tok (emit (SendOAuthAuthorized tok) ?w2)"
    if fetched: "fetch_token e (exchange_args e req (adopt_state st (bp w))) = Inr tok" for tok
  proof (cases "send_authorized e (adopt_state st (bp w)) tok")
    case (Inl x)
    from authorized_receiver_raises [OF assms fetched Inl] show ?thesis
      by simp
  next
    case (Inr results)
    from authorized_exchange_succeeds [OF assms fetched Inr] show ?thesis
      by (simp split: if_splits)
  qed
  have base: "bp ?w2 = adopt_state st (bp w)"
    "flask_session ?w2 = (flask_session w)(state_key (bp w) := None)"
    "take 2 (effects_of w ?w2) =
       [SessionDel (state_key (bp w)), FetchToken (exchange_args e req (adopt_state st (bp w)))]"
    by (simp_all add: before_exchange_def effects_of_def)
  have more: "bp (emit x v) = bp v" "flask_session (emit x v) = flask_session v"
    "bp (set_token t v) = bp v" "flask_session (set_token t v) = flask_session v"
    "trace (emit x v) = trace v @ [x]"
    "trace (set_token t v) = trace v @ [StoreSet (principal_of (bp v)) t]" for x t v
    by (simp_all add: emit_def set_token_def)
  have tr: "trace ?w2 = trace w @
       [SessionDel (state_key (bp w)), FetchToken (exchange_args e req (adopt_state st (bp w)))]"
    by (simp add: before_exchange_def)
  show "bp (snd (authorized e req w)) = adopt_state st (bp w)"
  proof (cases "fetch_token e (exchange_args e req (adopt_state st (bp w)))")
    case (Inl x)
    from authorized_exchange_fails [OF assms Inl] base show ?thesis by simp
  next
    case (Inr tok)
    from shape [OF Inr] base more show ?thesis by auto
  qed
  show "flask_session (snd (authorized e req w)) = (flask_session w)(state_key (bp w) := None)"
  proof (cases "fetch_token e (exchange_args e req (adopt_state st (bp w)))")
    case (Inl x)
    from authorized_exchange_fails [OF assms Inl] base show ?thesis by simp
  next
    case (Inr tok)
    from shape [OF Inr] base more show ?thesis by auto
  qed
  show "take 2 (effects_of w (snd (authorized e req w))) =
           [SessionDel (state_key (bp w)), FetchToken (exchange_args e req (adopt_state st (bp w)))]"
  proof (cases "fetch_token e (exchange_args e req (adopt_state st (bp w)))")
    case (Inl x)
    from authorized_exchange_fails [OF assms Inl] base show ?thesis by simp
  next
    case (Inr tok)
    from shape [OF Inr] show ?thesis
      by (auto simp: effects_of_def more tr)
  qed
qed

lemma state_key_adopt_state: "state_key (adopt_state st self) = state_key self"
  by (simp add: state_key_def adopt_state_def)

lemmas sample_defs =
  stored_world_def world_of_def OAuth2ConsumerBlueprint_init_def OAuth2Session_init_def
  BaseOAuth2Session_init_def example_config_def redirect_config_def fixed_state_config_def
  example_env_def
  error_request_def callback_request_def with_next_def

lemmas view_defs =
  authorized_def Let_def truthy_def state_key_def next_url_def adopt_state_def
  exchange_args_def callback_url_def get_default_def emit_def send_authorized_def
  set_token_def principal_of_def

subsection \<open>Veto and persistence\<close>

text \<open>
  C1 as stated fails: the view does not catch what a receiver raises. With a request that
  carries no error, a stored state and an exchange that returns a token, a receiver that
  raises ends the view with its exception, although no receiver returned a veto: nothing
  is written to the token store and no redirect is returned.
\<close>

theorem raising_receiver_stops_the_view:
  "\<not> truthy (args callback_request ''error'') \<and>
   flask_session (stored_world example_config) (state_key (bp (stored_world example_config)))
     = Some ''st4te'' \<and>
   fetch_token raising_env
     (exchange_args raising_env callback_request
        (adopt_state ''st4te'' (bp (stored_world example_config)))) = Inr example_token \<and>
   replies raising_env (adopt_state ''st4te'' (bp (stored_world example_config))) example_token
     = [Inr PyNone, Inl (ReceiverError ''boom'')] \<and>
   fst (authorized raising_env callback_request (stored_world example_config))
     = Inl (ReceiverError ''boom'') \<and>
   filter is_store_set (effects_of (stored_world example_config)
      (snd (authorized raising_env callback_request (stored_world example_config)))) = [] \<and>
   token_store (snd (authorized raising_env callback_request (stored_world example_config)))
     (None, None) = None"
  by (simp add: view_defs sample_defs raising_env_def replies_def effects_of_def)

text \<open>
  C1, as the source has it: take an \<^verbatim>\<open>authorized\<close> call that does not take the error
  branch, finds a stored state and whose token exchange returns the token \<open>tok\<close>, and look
  at what the receivers of the \<^verbatim>\<open>oauth_authorized\<close> signal do with it. If none of them
  raises, the call returns a redirect to the redirect target; if one of them returned
  \<^verbatim>\<open>False\<close> or \<^verbatim>\<open>0\<close> (the values equal to \<^verbatim>\<open>False\<close>), the call makes no write to
  the token store and the store is unchanged; if none did, it makes exactly one write, of
  \<open>tok\<close> for the current principal. If a receiver raises, the call raises, makes no write
  and leaves the store unchanged.
\<close>

theorem veto_or_persist_unless_raised:
  assumes "\<not> truthy (args req ''error'')"
      and "flask_session w (state_key (bp w)) = Some st"
      and "fetch_token e (exchange_args e req (adopt_state st (bp w))) = Inr tok"
  shows "((\<forall>r \<in> set (replies e (adopt_state st (bp w)) tok). \<exists>v. r = Inr v) \<longrightarrow>
            fst (authorized e req w) = Inr (Redirect (next_url e req (bp w))) \<and>
            (Inr (PyBool False) \<in> set (replies e (adopt_state st (bp w)) tok) \<or>
             Inr (PyInt 0) \<in> set (replies e (adopt_state st (bp w)) tok) \<longrightarrow>
               filter is_store_set (effects_of w (snd (authorized e req w))) = [] \<and>
               token_store (snd (authorized e req w)) = token_store w) \<and>
            (Inr (PyBool False) \<notin> set (replies e (adopt_state st (bp w)) tok) \<and>
             Inr (PyInt 0) \<notin> set (replies e (adopt_state st (bp w)) tok) \<longrightarrow>
               filter is_store_set (effects_of w (snd (authorized e req w))) =
                 [StoreSet (principal_of (bp w)) tok] \<and>
               token_store (snd (authorized e req w)) =
                 (token_store w)(principal_of (bp w) \<mapsto> tok))) \<and>
         ((\<exists>x. Inl x \<in> set (replies e (adopt_state st (bp w)) tok)) \<longrightarrow>
            (\<exists>x. fst (authorized e req w) = Inl x) \<and>
            filter is_store_set (effects_of w (snd (authorized e req w))) = [] \<and>
            token_store (snd (authorized e req w)) = token_store w)"
proof (intro conjI impI)
  let ?self = "adopt_state st (bp w)"
  let ?R = "replies e ?self tok"
  let ?w4 = "emit (SendOAuthAuthorized tok) (before_exchange e req st w)"
  have w4: "filter is_store_set (effects_of w ?w4) = []"
     "token_store ?w4 = token_store w"
    by (simp_all add: effects_of_def emit_def before_exchange_def)
  have stored: "filter is_store_set (effects_of w (set_token tok ?w4)) = [StoreSet (principal_of (bp w)) tok]"
     "token_store (set_token tok ?w4) = (token_store w)(principal_of (bp w) \<mapsto> tok)"
    by (simp_all add: effects_of_def set_token_def emit_def before_exchange_def adopt_state_def
          principal_of_def)
  {
    assume "\<forall>r \<in> set ?R. \<exists>v. r = Inr v"
    then obtain results where sent: "send_authorized e ?self tok = Inr results"
      unfolding replies_def send_authorized_def by (blast dest: send_to_all_return)
    note run = authorized_exchange_succeeds [OF assms sent]
    note veto = veto_iff [OF sent]
    from run show "fst (authorized e req w) = Inr (Redirect (next_url e req (bp w)))"
      by simp
    {
      assume "Inr (PyBool False) \<in> set ?R \<or> Inr (PyInt 0) \<in> set ?R"
      with veto run have "snd (authorized e req w) = ?w4"
        by simp
      with w4 show "filter is_store_set (effects_of w (snd (authorized e req w))) = []"
        and "token_store (snd (authorized e req w)) = token_store w"
        by simp_all
    }
    {
      assume "Inr (PyBool False) \<notin> set ?R \<and> Inr (PyInt 0) \<notin> set ?R"
      with veto run have "snd (authorized e req w) = set_token tok ?w4"
        by simp
      with stored show "filter is_store_set (effects_of w (snd (authorized e req w))) =
                 [StoreSet (principal_of (bp w)) tok]"
        and "token_store (snd (authorized e req w)) = (token_store w)(principal_of (bp w) \<mapsto> tok)"
        by simp_all
    }
  }
  {
    assume "\<exists>x. Inl x \<in> set ?R"
    then obtain y where raised: "send_authorized e ?self tok = Inl y"
      unfolding replies_def send_authorized_def by (blast dest: send_to_raises)
    note run = authorized_receiver_raises [OF assms raised]
    from run show "\<exists>x. fst (authorized e req w) = Inl x"
      by simp
    from run w4 show "filter is_store_set (effects_of w (snd (authorized e req w))) = []"
      and "token_store (snd (authorized e req w)) = token_store w"
      by simp_all
  }
qed

theorem veto_or_persist_unless_raised_witness:
  "replies vetoing_env (adopt_state ''st4te'' (bp (stored_world example_config))) example_token
     = [Inr PyNone, Inr (PyBool False)] \<and>
   fst (authorized vetoing_env callback_request (stored_world example_config)) = Inr (Redirect ''/'') \<and>
   filter is_store_set (effects_of (stored_world example_config)
      (snd (authorized vetoing_env callback_request (stored_world example_config)))) = [] \<and>
   token_store (snd (authorized vetoing_env callback_request (stored_world example_config))) = Map.empty \<and>
   replies zero_env (adopt_state ''st4te'' (bp (stored_world example_config))) example_token
     = [Inr (PyInt 0)] \<and>
   filter is_store_set (effects_of (stored_world example_config)
      (snd (authorized zero_env callback_request (stored_world example_config)))) = [] \<and>
   replies approving_env (adopt_state ''st4te'' (bp (stored_world example_config))) example_token
     = [Inr PyNone, Inr (PyBool True), Inr (PyStr []), Inr (PyList []), Inr (PyInt 1)] \<and>
   fst (authorized approving_env callback_request (stored_world example_config)) = Inr (Redirect ''/'') \<and>
   filter is_store_set (effects_of (stored_world example_config)
      (snd (authorized approving_env callback_request (stored_world example_config)))) =
     [StoreSet (None, None) example_token] \<and>
   token_store (snd (authorized approving_env callback_request (stored_world example_config))) =
     [(None, None) \<mapsto> example_token] \<and>
   replies example_env (adopt_state ''st4te'' (bp (stored_world example_config))) example_token = [] \<and>
   filter is_store_set (effects_of (stored_world example_config)
      (snd (authorized example_env callback_request (stored_world example_config)))) =
     [StoreSet (None, None) example_token]"
proof -
  let ?w = "stored_world example_config"
  let ?self = "adopt_state ''st4te'' (bp ?w)"
  have a: "\<not> truthy (args callback_request ''error'')"
    by (simp add: callback_request_def truthy_def)
  have b: "flask_session ?w (state_key (bp ?w)) = Some ''st4te''"
    by (simp add: sample_defs state_key_def)
  have c: "fetch_token e (exchange_args e callback_request ?self) = Inr example_token"
    if "fetch_token e = fetch_token example_env" for e
    using that by (simp add: example_env_def exchange_args_def adopt_state_def)
  have cv: "fetch_token vetoing_env (exchange_args vetoing_env callback_request ?self) = Inr example_token"
    by (rule c) (simp add: vetoing_env_def)
  have cz: "fetch_token zero_env (exchange_args zero_env callback_request ?self) = Inr example_token"
    by (rule c) (simp add: zero_env_def)
  have ca: "fetch_token approving_env (exchange_args approving_env callback_request ?self) = Inr example_token"
    by (rule c) (simp add: approving_env_def)
  have ce: "fetch_token example_env (exchange_args example_env callback_request ?self) = Inr example_token"
    by (rule c) simp
  have n: "next_url vetoing_env callback_request (bp ?w) = ''/''"
          "next_url approving_env callback_request (bp ?w) = ''/''"
    by (simp_all add: next_url_def truthy_def sample_defs)
  have rv: "replies vetoing_env ?self example_token = [Inr PyNone, Inr (PyBool False)]"
    by (simp add: replies_def vetoing_env_def)
  have rz: "replies zero_env ?self example_token = [Inr (PyInt 0)]"
    by (simp add: replies_def zero_env_def)
  have ra: "replies approving_env ?self example_token
      = [Inr PyNone, Inr (PyBool True), Inr (PyStr []), Inr (PyList []), Inr (PyInt 1)]"
    by (simp add: replies_def approving_env_def)
  have re: "replies example_env ?self example_token = []"
    by (simp add: replies_def example_env_def)
  have p: "principal_of (bp ?w) = (None, None)" "token_store ?w = Map.empty"
    by (simp_all add: principal_of_def sample_defs)
  from veto_or_persist_unless_raised [OF a b cv, unfolded rv n p]
  have v: "fst (authorized vetoing_env callback_request ?w) = Inr (Redirect ''/'')"
    "filter is_store_set (effects_of ?w (snd (authorized vetoing_env callback_request ?w))) = []"
    "token_store (snd (authorized vetoing_env callback_request ?w)) = Map.empty"
    by simp_all
  from veto_or_persist_unless_raised [OF a b cz, unfolded rz p]
  have z: "filter is_store_set (effects_of ?w (snd (authorized zero_env callback_request ?w))) = []"
    by simp
  from veto_or_persist_unless_raised [OF a b ca, unfolded ra n p]
  have ap: "fst (authorized approving_env callback_request ?w) = Inr (Redirect ''/'')"
    "filter is_store_set (effects_of ?w (snd (authorized approving_env callback_request ?w))) =
       [StoreSet (None, None) example_token]"
    "token_store (snd (authorized approving_env callback_request ?w)) = [(None, None) \<mapsto> example_token]"
    by simp_all
  from veto_or_persist_unless_raised [OF a b ce, unfolded re p]
  have ex: "filter is_store_set (effects_of ?w (snd (authorized example_env callback_request ?w))) =
       [StoreSet (None, None) example_token]"
    by simp
  from rv v rz z ra ap re ex show ?thesis
    by simp
qed

subsection \<open>A callback without stored state\<close>

text \<open>
  C2: an \<^verbatim>\<open>authorized\<close> call whose request has no \<^verbatim>\<open>error\<close> parameter, in a
  world where nothing is stored under the flow's state key, fails with the
  \<^verbatim>\<open>KeyError\<close> of \<^verbatim>\<open>flask.session[state_key]\<close>; it adds no token exchange to the
  trace and leaves the world as it was.
\<close>

theorem missing_state_fails_closed:
  assumes "args req ''error'' = None"
      and "flask_session w (state_key (bp w)) = None"
  shows "fst (authorized e req w) = Inl (KeyError (state_key (bp w))) \<and>
         filter is_fetch (effects_of w (snd (authorized e req w))) = [] \<and>
         snd (authorized e req w) = w"
proof -
  from assms(1) have "\<not> truthy (args req ''error'')"
    by (simp add: truthy_def)
  then have "authorized e req w = (Inl (KeyError (state_key (bp w))), w)"
    using assms(2) by (rule authorized_no_state)
  then show ?thesis
    by (simp add: effects_of_def)
qed

theorem missing_state_fails_closed_witness:
  "args callback_request ''error'' = None \<and>
   flask_session (world_of example_config) (state_key (bp (world_of example_config))) = None \<and>
   fst (authorized example_env callback_request (world_of example_config)) = Inl (KeyError ''github_oauth_state'') \<and>
   filter is_fetch (effects_of (world_of example_config)
      (snd (authorized example_env callback_request (world_of example_config)))) = []"
proof -
  have a: "args callback_request ''error'' = None"
    by (simp add: callback_request_def)
  have b: "flask_session (world_of example_config) (state_key (bp (world_of example_config))) = None"
    by (simp add: world_of_def)
  have k: "state_key (bp (world_of example_config)) = ''github_oauth_state''"
    by (simp add: world_of_def state_key_def OAuth2ConsumerBlueprint_init_def example_config_def)
  from missing_state_fails_closed [OF a b, of example_env] a b k show ?thesis
    by (simp add: effects_of_def)
qed

subsection \<open>The stored state is consumed\<close>

text \<open>
  C3: take an \<^verbatim>\<open>authorized\<close> call that reaches the validation of the state (it does
  not take the error branch). Afterwards nothing is stored under the flow's key, whatever
  the exchange did. If a state was stored, the session's \<^verbatim>\<open>_state\<close> now holds it, and
  the first two effects of the call are the deletion of the key and then the token
  exchange, called with that state. A second call on the world the first one left, with
  any request that reaches the validation again, fails with \<^verbatim>\<open>KeyError\<close> and changes
  nothing.
\<close>

theorem stored_state_consumed_once:
  assumes "\<not> truthy (args req ''error'')"
  shows "flask_session (snd (authorized e req w)) (state_key (bp w)) = None \<and>
         (\<forall>st. flask_session w (state_key (bp w)) = Some st \<longrightarrow>
            priv_state (session (bp (snd (authorized e req w)))) = Some st \<and>
            take 2 (effects_of w (snd (authorized e req w))) =
              [SessionDel (state_key (bp w)),
               FetchToken (exchange_args e req (adopt_state st (bp w)))] \<and>
            fa_state (exchange_args e req (adopt_state st (bp w))) = Some st) \<and>
         (\<forall>e2 req2. \<not> truthy (args req2 ''error'') \<longrightarrow>
            authorized e2 req2 (snd (authorized e req w)) =
              (Inl (KeyError (state_key (bp w))), snd (authorized e req w)))"
proof -
  let ?w' = "snd (authorized e req w)"
  have gone: "flask_session ?w' (state_key (bp w)) = None" and key: "state_key (bp ?w') = state_key (bp w)"
  proof -
    show "flask_session ?w' (state_key (bp w)) = None"
    proof (cases "flask_session w (state_key (bp w))")
      case None
      with authorized_no_state [OF assms None, of e] show ?thesis by simp
    next
      case (Some st)
      with authorized_after_validation(2) [OF assms Some, of e] show ?thesis by simp
    qed
    show "state_key (bp ?w') = state_key (bp w)"
    proof (cases "flask_session w (state_key (bp w))")
      case None
      with authorized_no_state [OF assms None, of e] show ?thesis by simp
    next
      case (Some st)
      with authorized_after_validation(1) [OF assms Some, of e] show ?thesis
        by (simp add: state_key_adopt_state)
    qed
  qed
  have consumed: "priv_state (session (bp ?w')) = Some st \<and>
        take 2 (effects_of w ?w') =
          [SessionDel (state_key (bp w)), FetchToken (exchange_args e req (adopt_state st (bp w)))] \<and>
        fa_state (exchange_args e req (adopt_state st (bp w))) = Some st"
    if "flask_session w (state_key (bp w)) = Some st" for st
    using authorized_after_validation [OF assms that, of e]
    by (simp add: adopt_state_def exchange_args_def)
  have replay: "authorized e2 req2 ?w' = (Inl (KeyError (state_key (bp w))), ?w')"
    if "\<not> truthy (args req2 ''error'')" for e2 req2
    using authorized_no_state [OF that, of ?w' e2] gone key by simp
  from gone consumed replay show ?thesis
    by blast
qed

theorem stored_state_consumed_once_witness:
  "\<not> truthy (args callback_request ''error'') \<and>
   flask_session (stored_world example_config) ''github_oauth_state'' = Some ''st4te'' \<and>
   fst (authorized example_env callback_request (stored_world example_config)) = Inr (Redirect ''/'') \<and>
   flask_session (snd (authorized example_env callback_request (stored_world example_config)))
     ''github_oauth_state'' = None \<and>
   priv_state (session (bp (snd (authorized example_env callback_request (stored_world example_config)))))
     = Some ''st4te'' \<and>
   fst (authorized example_env callback_request
          (snd (authorized example_env callback_request (stored_world example_config))))
     = Inl (KeyError ''github_oauth_state'')"
proof -
  let ?w = "stored_world example_config"
  have a: "\<not> truthy (args callback_request ''error'')"
    by (simp add: callback_request_def truthy_def)
  have k: "state_key (bp ?w) = ''github_oauth_state''"
    by (simp add: sample_defs state_key_def)
  have b: "flask_session ?w ''github_oauth_state'' = Some ''st4te''"
    by (simp add: sample_defs)
  have r: "fst (authorized example_env callback_request ?w) = Inr (Redirect ''/'')"
    by (simp add: view_defs sample_defs)
  note t = stored_state_consumed_once [OF a, of example_env ?w, unfolded k]
  from t have "flask_session (snd (authorized example_env callback_request ?w)) ''github_oauth_state'' = None"
    by blast
  moreover from t b
  have "priv_state (session (bp (snd (authorized example_env callback_request ?w)))) = Some ''st4te''"
    by blast
  moreover from t a
  have "authorized example_env callback_request (snd (authorized example_env callback_request ?w)) =
      (Inl (KeyError ''github_oauth_state''), snd (authorized example_env callback_request ?w))"
    by blast
  ultimately show ?thesis
    using a b r by simp
qed

subsection \<open>The provider-error branch\<close>




subsection \<open>The redirect target\<close>

text \<open>
  C5: the redirect target of \<^verbatim>\<open>authorized\<close> is the one the precedence of the
  specification gives (\<open>precedence_target\<close>: the \<^verbatim>\<open>next\<close> parameter, else the
  static redirect URL, else the URL of the named endpoint, else \<^verbatim>\<open>/\<close>). A call that
  takes the provider-error branch returns a redirect to it, and every call that returns a
  response at all, on either branch, returns a redirect to it.
\<close>

theorem redirect_target_precedence:
  "(truthy (args req ''error'') \<longrightarrow>
      fst (authorized e req w) = Inr (Redirect (precedence_target e req (bp w)))) \<and>
   (\<forall>r. fst (authorized e req w) = Inr r \<longrightarrow> r = Redirect (precedence_target e req (bp w)))"
proof (intro conjI impI allI)
  assume "truthy (args req ''error'')"
  from authorized_error_branch [OF this, of e w]
  show "fst (authorized e req w) = Inr (Redirect (precedence_target e req (bp w)))"
    by (simp add: next_url_precedence)
next
  fix r
  assume "fst (authorized e req w) = Inr r"
  then have "r = Redirect (next_url e req (bp w))"
    by (rule authorized_redirects_to_next_url)
  then show "r = Redirect (precedence_target e req (bp w))"
    by (simp add: next_url_precedence)
qed

theorem redirect_target_precedence_witness:
  "fst (authorized example_env (with_next ''/a'' error_request)
          (stored_world (redirect_config (Some ''/b'') (Some ''c'')))) = Inr (Redirect ''/a'') \<and>
   fst (authorized example_env error_request
          (stored_world (redirect_config (Some ''/b'') (Some ''c'')))) = Inr (Redirect ''/b'') \<and>
   fst (authorized example_env error_request
          (stored_world (redirect_config None (Some ''c'')))) = Inr (Redirect ''/c'') \<and>
   fst (authorized example_env error_request
          (stored_world (redirect_config None None))) = Inr (Redirect ''/'') \<and>
   fst (authorized example_env (with_next ''/a'' callback_request)
          (stored_world (redirect_config (Some ''/b'') (Some ''c'')))) = Inr (Redirect ''/a'') \<and>
   fst (authorized example_env callback_request
          (stored_world (redirect_config (Some ''/b'') (Some ''c'')))) = Inr (Redirect ''/b'') \<and>
   fst (authorized example_env callback_request
          (stored_world (redirect_config None (Some ''c'')))) = Inr (Redirect ''/c'') \<and>
   fst (authorized example_env callback_request
          (stored_world (redirect_config None None))) = Inr (Redirect ''/'')"
proof -
  have t: "truthy (args error_request ''error'')"
          "truthy (args (with_next ''/a'' error_request) ''error'')"
    by (simp_all add: error_request_def with_next_def truthy_def)
  have p: "precedence_target example_env (with_next ''/a'' error_request)
             (bp (stored_world (redirect_config (Some ''/b'') (Some ''c'')))) = ''/a''"
          "precedence_target example_env error_request
             (bp (stored_world (redirect_config (Some ''/b'') (Some ''c'')))) = ''/b''"
          "precedence_target example_env error_request
             (bp (stored_world (redirect_config None (Some ''c'')))) = ''/c''"
          "precedence_target example_env error_request
             (bp (stored_world (redirect_config None None))) = ''/''"
    by (simp_all add: precedence_target_def sample_defs)
  have e: "fst (authorized example_env (with_next ''/a'' error_request)
             (stored_world (redirect_config (Some ''/b'') (Some ''c'')))) = Inr (Redirect ''/a'')"
    using redirect_target_precedence [of "with_next ''/a'' error_request" example_env
        "stored_world (redirect_config (Some ''/b'') (Some ''c''))", THEN conjunct1] t p by simp
  moreover have "fst (authorized example_env error_request
          (stored_world (redirect_config (Some ''/b'') (Some ''c'')))) = Inr (Redirect ''/b'')"
    using redirect_target_precedence [of error_request example_env
        "stored_world (redirect_config (Some ''/b'') (Some ''c''))", THEN conjunct1] t p by simp
  moreover have "fst (authorized example_env error_request
          (stored_world (redirect_config None (Some ''c'')))) = Inr (Redirect ''/c'')"
    using redirect_target_precedence [of error_request example_env
        "stored_world (redirect_config None (Some ''c''))", THEN conjunct1] t p by simp
  moreover have "fst (authorized example_env error_request
          (stored_world (redirect_config None None))) = Inr (Redirect ''/'')"
    using redirect_target_precedence [of error_request example_env
        "stored_world (redirect_config None None)", THEN conjunct1] t p by simp
  moreover have "fst (authorized example_env (with_next ''/a'' callback_request)
          (stored_world (redirect_config (Some ''/b'') (Some ''c'')))) = Inr (Redirect ''/a'')"
    by (simp add: view_defs sample_defs)
  moreover have "fst (authorized example_env callback_request
          (stored_world (redirect_config (Some ''/b'') (Some ''c'')))) = Inr (Redirect ''/b'')"
    by (simp add: view_defs sample_defs)
  moreover have "fst (authorized example_env callback_request
          (stored_world (redirect_config None (Some ''c'')))) = Inr (Redirect ''/c'')"
    by (simp add: view_defs sample_defs)
  moreover have "fst (authorized example_env callback_request
          (stored_world (redirect_config None None))) = Inr (Redirect ''/'')"
    by (simp add: view_defs sample_defs)
  ultimately show ?thesis
    by simp
qed

subsection \<open>What the provider-error branch leaves behind\<close>

text \<open>
  C6 as stated fails: the error branch returns before the view touches the stored state,
  so a state stored under the flow's key is still there after the call.
\<close>

theorem error_branch_keeps_stored_state:
  "truthy (args error_request ''error'') \<and>
   flask_session (stored_world example_config) (state_key (bp (stored_world example_config))) = Some ''st4te'' \<and>
   flask_session (snd (authorized example_env error_request (stored_world example_config)))
     (state_key (bp (stored_world example_config))) = Some ''st4te''"
  by (simp add: authorized_def Let_def error_request_def stored_world_def world_of_def
      OAuth2ConsumerBlueprint_init_def example_config_def truthy_def state_key_def emit_def)

text \<open>
  C6, as the source has it: a call that takes the provider-error branch writes no state.
  The Flask session (with whatever is stored under the flow's key), the token store, the
  blueprint with its session, and the generator's counter are what they were before.
\<close>

theorem error_branch_writes_no_state:
  assumes "truthy (args req ''error'')"
  shows "flask_session (snd (authorized e req w)) = flask_session w \<and>
         token_store (snd (authorized e req w)) = token_store w \<and>
         bp (snd (authorized e req w)) = bp w \<and>
         entropy (snd (authorized e req w)) = entropy w"
  using authorized_error_branch [OF assms, of e w] by simp

theorem error_branch_writes_no_state_witness:
  "truthy (args error_request ''error'') \<and>
   flask_session (snd (authorized example_env error_request (stored_world example_config))) =
     [''github_oauth_state'' \<mapsto> ''st4te''] \<and>
   token_store (snd (authorized example_env error_request (stored_world example_config))) = Map.empty"
proof -
  have a: "truthy (args error_request ''error'')"
    by (simp add: error_request_def truthy_def)
  from error_branch_writes_no_state [OF a, of example_env "stored_world example_config"] a
  show ?thesis
    by (simp add: stored_world_def world_of_def)
qed

subsection \<open>The state a login stores\<close>

lemma login_generated:
  assumes "\<not> truthy (state (bp w))" and "session_state (session (bp w)) = None"
  shows "flask_session (snd (login e req w)) (state_key (bp w)) = Some (generate_token e (entropy w))"
    and "entropy (snd (login e req w)) = Suc (entropy w)"
    and "state (bp (snd (login e req w))) = state (bp w)"
    and "session_state (session (bp (snd (login e req w)))) = None"
    and "state_key (bp (snd (login e req w))) = state_key (bp w)"
  using assms
  by (simp_all add: login_def session_authorization_url_def new_state_def Let_def emit_def
        state_key_def)

lemma login_fixed:
  assumes "state (bp w) = Some c" and "c \<noteq> []"
  shows "flask_session (snd (login e req w)) (state_key (bp w)) = Some c"
    and "state (bp (snd (login e req w))) = state (bp w)"
    and "state_key (bp (snd (login e req w))) = state_key (bp w)"
  using assms
  by (simp_all add: login_def session_authorization_url_def truthy_def Let_def emit_def
        state_key_def)

lemma init_state:
  "state (OAuth2ConsumerBlueprint_init e c) = cfg_state c"
  "session_state (session (OAuth2ConsumerBlueprint_init e c)) = (if truthy (cfg_state c) then cfg_state c else None)"
  by (simp_all add: OAuth2ConsumerBlueprint_init_def OAuth2Session_init_def BaseOAuth2Session_init_def)

text \<open>
  No call changes the name of the blueprint, its \<^verbatim>\<open>state\<close> or the \<^verbatim>\<open>state\<close>
  of its session, and the generator's counter never goes back.
\<close>

lemma login_keeps_configuration:
  "name (bp (snd (login e req w))) = name (bp w)"
  "state (bp (snd (login e req w))) = state (bp w)"
  "session_state (session (bp (snd (login e req w)))) = session_state (session (bp w))"
  "entropy w \<le> entropy (snd (login e req w))"
  by (simp_all add: login_def session_authorization_url_def new_state_def Let_def emit_def
        split: option.splits)

lemma authorized_keeps_configuration:
  "name (bp (snd (authorized e req w))) = name (bp w)"
  "state (bp (snd (authorized e req w))) = state (bp w)"
  "session_state (session (bp (snd (authorized e req w)))) = session_state (session (bp w))"
  "entropy (snd (authorized e req w)) = entropy w"
  by (simp_all add: authorized_def Let_def emit_def set_token_def adopt_state_def
        split: option.splits sum.splits)

lemma step_keeps_configuration:
  "name (bp (step e c w)) = name (bp w)"
  "state (bp (step e c w)) = state (bp w)"
  "session_state (session (bp (step e c w))) = session_state (session (bp w))"
  "entropy w \<le> entropy (step e c w)"
proof -
  show "name (bp (step e c w)) = name (bp w)"
    by (cases c)
       (simp_all add: login_keeps_configuration authorized_keeps_configuration
          OAuth2Session_load_token_def load_token_def client_id_set_def Let_def)
  show "state (bp (step e c w)) = state (bp w)"
    by (cases c)
       (simp_all add: login_keeps_configuration authorized_keeps_configuration
          OAuth2Session_load_token_def load_token_def client_id_set_def Let_def)
  show "session_state (session (bp (step e c w))) = session_state (session (bp w))"
    by (cases c)
       (simp_all add: login_keeps_configuration authorized_keeps_configuration
          OAuth2Session_load_token_def load_token_def client_id_set_def Let_def)
  show "entropy w \<le> entropy (step e c w)"
    by (cases c)
       (simp_all add: login_keeps_configuration authorized_keeps_configuration
          OAuth2Session_load_token_def load_token_def client_id_set_def Let_def)
qed

lemma run_keeps_configuration:
  "name (bp (run e cs w)) = name (bp w) \<and>
   state (bp (run e cs w)) = state (bp w) \<and>
   session_state (session (bp (run e cs w))) = session_state (session (bp w)) \<and>
   entropy w \<le> entropy (run e cs w)"
proof (induction cs arbitrary: w)
  case Nil
  show ?case by simp
next
  case (Cons c cs)
  from Cons.IH [of "step e c w"] step_keeps_configuration [where e = e and c = c and w = w] show ?case
    by simp
qed

text \<open>
  C7 as stated fails: \<^verbatim>\<open>login\<close> passes the blueprint's \<^verbatim>\<open>state\<close> to
  \<^verbatim>\<open>authorization_url\<close>, which uses a state it is given. A flow constructed with
  \<^verbatim>\<open>state="fixed"\<close> stores the same value on every login.
\<close>

theorem fixed_state_is_reused:
  "cfg_state fixed_state_config = Some ''fixed'' \<and>
   flask_session (snd (login example_env login_request (world_of fixed_state_config)))
     ''github_oauth_state'' = Some ''fixed'' \<and>
   flask_session (snd (login example_env login_request
                    (snd (login example_env login_request (world_of fixed_state_config)))))
     ''github_oauth_state'' = Some ''fixed''"
  by (simp add: login_def session_authorization_url_def Let_def emit_def state_key_def truthy_def
        sample_defs login_request_def get_default_def)

text \<open>
  C7, as the source has it: take a flow as its constructor built it from the
  configuration \<open>c\<close>, any calls \<open>before\<close>, a login, any calls \<open>between\<close>, and a second
  login. If \<open>c\<close> has no state (\<^verbatim>\<open>None\<close> or empty), each login stores the token the
  generator produces in that call; the second login uses a later output of the generator
  than the first, so the two stored values are distinct whenever the generator does not
  repeat itself. If \<open>c\<close> has a state, both logins store it.
\<close>

theorem every_login_stores_generated_or_fixed_state:
  assumes "bp w0 = OAuth2ConsumerBlueprint_init e0 c"
      and "w1 = run e before w0"
      and "w2 = run e between (snd (login e req w1))"
  shows "(\<not> truthy (cfg_state c) \<longrightarrow>
            flask_session (snd (login e req w1)) (state_key (bp w0)) = Some (generate_token e (entropy w1)) \<and>
            flask_session (snd (login e req' w2)) (state_key (bp w0)) = Some (generate_token e (entropy w2)) \<and>
            entropy w1 < entropy w2 \<and>
            (inj (generate_token e) \<longrightarrow>
               flask_session (snd (login e req w1)) (state_key (bp w0)) \<noteq>
               flask_session (snd (login e req' w2)) (state_key (bp w0)))) \<and>
         (truthy (cfg_state c) \<longrightarrow>
            flask_session (snd (login e req w1)) (state_key (bp w0)) = cfg_state c \<and>
            flask_session (snd (login e req' w2)) (state_key (bp w0)) = cfg_state c)"
proof -
  let ?v = "snd (login e req w1)"
  from assms(1) have built: "state (bp w0) = cfg_state c"
    "session_state (session (bp w0)) = (if truthy (cfg_state c) then cfg_state c else None)"
    by (simp_all add: init_state)
  from run_keeps_configuration [where e = e and cs = before and w = w0] assms(2) built
  have first: "state_key (bp w1) = state_key (bp w0)" "state (bp w1) = cfg_state c"
    "session_state (session (bp w1)) = (if truthy (cfg_state c) then cfg_state c else None)"
    by (simp_all add: state_key_def)
  from run_keeps_configuration [where e = e and cs = between and w = ?v]
    login_keeps_configuration [where e = e and req = req and w = w1] assms(3) first
  have second: "state_key (bp w2) = state_key (bp w0)" "state (bp w2) = cfg_state c"
    "session_state (session (bp w2)) = (if truthy (cfg_state c) then cfg_state c else None)"
    "entropy ?v \<le> entropy w2"
    by (simp_all add: state_key_def)
  have generated: ?thesis if free: "\<not> truthy (cfg_state c)"
  proof -
    from free first have a1: "\<not> truthy (state (bp w1))" and b1: "session_state (session (bp w1)) = None"
      by simp_all
    from free second have a2: "\<not> truthy (state (bp w2))" and b2: "session_state (session (bp w2)) = None"
      by simp_all
    have one: "flask_session ?v (state_key (bp w0)) = Some (generate_token e (entropy w1))"
      using login_generated(1) [OF a1 b1, of e req] first(1) by simp
    have two: "flask_session (snd (login e req' w2)) (state_key (bp w0)) = Some (generate_token e (entropy w2))"
      using login_generated(1) [OF a2 b2, of e req'] second(1) by simp
    have later: "entropy w1 < entropy w2"
      using login_generated(2) [OF a1 b1, of e req] second(4) by simp
    have "generate_token e (entropy w1) \<noteq> generate_token e (entropy w2)" if "inj (generate_token e)"
      using that later by (auto dest: injD)
    with one two later free show ?thesis
      by simp
  qed
  have fixed: ?thesis if set: "truthy (cfg_state c)"
  proof -
    from set obtain s where s: "cfg_state c = Some s" "s \<noteq> []"
      by (auto simp: truthy_def split: option.splits)
    from s first have a1: "state (bp w1) = Some s"
      by simp
    from s second have a2: "state (bp w2) = Some s"
      by simp
    have "flask_session ?v (state_key (bp w0)) = cfg_state c"
      using login_fixed(1) [OF a1 s(2), of e req] first(1) s(1) by simp
    moreover have "flask_session (snd (login e req' w2)) (state_key (bp w0)) = cfg_state c"
      using login_fixed(1) [OF a2 s(2), of e req'] second(1) s(1) by simp
    ultimately show ?thesis
      using set by simp
  qed
  from generated fixed show ?thesis
    by blast
qed

theorem every_login_stores_generated_or_fixed_state_witness:
  "bp (world_of example_config) = OAuth2ConsumerBlueprint_init example_env example_config \<and>
   \<not> truthy (cfg_state example_config) \<and>
   flask_session
     (snd (login example_env login_request
        (run example_env [LoadToken (Some ''alice'') None] (world_of example_config))))
     ''github_oauth_state'' = Some ''x'' \<and>
   flask_session
     (snd (login example_env login_request
        (run example_env [Authorized callback_request, SetClientId (Some ''cid2''), Login login_request]
           (snd (login example_env login_request
              (run example_env [LoadToken (Some ''alice'') None] (world_of example_config)))))))
     ''github_oauth_state'' = Some ''xxx'' \<and>
   bp (world_of fixed_state_config) = OAuth2ConsumerBlueprint_init example_env fixed_state_config \<and>
   truthy (cfg_state fixed_state_config) \<and>
   flask_session
     (snd (login example_env login_request
        (run example_env [Authorized callback_request, Login login_request]
           (snd (login example_env login_request (run example_env [] (world_of fixed_state_config)))))))
     ''github_oauth_state'' = Some ''fixed''"
proof -
  let ?w1 = "run example_env [LoadToken (Some ''alice'') None] (world_of example_config)"
  let ?w2 = "run example_env [Authorized callback_request, SetClientId (Some ''cid2''), Login login_request]
               (snd (login example_env login_request ?w1))"
  let ?u1 = "run example_env [] (world_of fixed_state_config)"
  let ?u2 = "run example_env [Authorized callback_request, Login login_request]
               (snd (login example_env login_request ?u1))"
  have a: "bp (world_of example_config) = OAuth2ConsumerBlueprint_init example_env example_config"
          "bp (world_of fixed_state_config) = OAuth2ConsumerBlueprint_init example_env fixed_state_config"
    by (simp_all add: world_of_def)
  have f: "\<not> truthy (cfg_state example_config)" "truthy (cfg_state fixed_state_config)"
          "cfg_state fixed_state_config = Some ''fixed''"
    by (simp_all add: example_config_def fixed_state_config_def truthy_def)
  have k: "state_key (bp (world_of example_config)) = ''github_oauth_state''"
          "state_key (bp (world_of fixed_state_config)) = ''github_oauth_state''"
    by (simp_all add: state_key_def sample_defs)
  have n1: "entropy ?w1 = 0"
    by (simp add: OAuth2Session_load_token_def load_token_def Let_def world_of_def)
  note t = every_login_stores_generated_or_fixed_state
             [where e = example_env and req = login_request and req' = login_request
                and before = "[LoadToken (Some ''alice'') None]"
                and between = "[Authorized callback_request, SetClientId (Some ''cid2''), Login login_request]",
              OF a(1) refl refl]
  from t f(1) have one: "flask_session (snd (login example_env login_request ?w1))
      (state_key (bp (world_of example_config))) = Some (generate_token example_env (entropy ?w1))"
    by blast
  from t f(1) have two: "flask_session (snd (login example_env login_request ?w2))
      (state_key (bp (world_of example_config))) = Some (generate_token example_env (entropy ?w2))"
    by blast
  have n2: "entropy ?w2 = 2"
    by (simp add: n1 login_keeps_configuration authorized_keeps_configuration
          login_def session_authorization_url_def new_state_def Let_def emit_def truthy_def
          client_id_set_def OAuth2Session_load_token_def load_token_def sample_defs)
  have g: "generate_token example_env 0 = ''x''" "generate_token example_env 2 = ''xxx''"
    by (simp_all add: example_env_def numeral_2_eq_2)
  note u = every_login_stores_generated_or_fixed_state
             [where e = example_env and req = login_request and req' = login_request
                and before = "[]" and between = "[Authorized callback_request, Login login_request]",
              OF a(2) refl refl]
  from u f(2) have three: "flask_session (snd (login example_env login_request ?u2))
      (state_key (bp (world_of fixed_state_config))) = cfg_state fixed_state_config"
    by blast
  from one two three a f show ?thesis
    unfolding k n1 n2 g by simp
qed

subsection \<open>Requests through the session\<close>

text \<open>
  C8: with a base URL configured (the session's \<^verbatim>\<open>base_url\<close> is not empty), the URL
  of the call that \<^verbatim>\<open>request\<close> hands to the superclass is the request URL resolved
  against the base URL by \<^verbatim>\<open>URLObject.relative\<close>, and method, data and headers are
  passed on. Resolution returns an absolute URL as it is (\<open>absolute_unchanged\<close>), so an
  absolute request URL is dispatched unchanged.
\<close>

theorem request_resolves_against_base_url:
  assumes "base_url s \<noteq> []"
  shows "hc_url (request_call e s m u d h) = relative e (base_url s) u \<and>
         OAuth2Session_request e s m u d h =
           super_request e \<lparr>hc_method = m, hc_url = relative e (base_url s) u,
                            hc_data = d, hc_headers = h\<rparr> \<and>
         (absolute_unchanged e \<and> url_scheme e u \<noteq> [] \<longrightarrow> hc_url (request_call e s m u d h) = u)"
proof -
  from assms have call: "request_call e s m u d h =
      \<lparr>hc_method = m, hc_url = relative e (base_url s) u, hc_data = d, hc_headers = h\<rparr>"
    by (simp add: request_call_def)
  have "relative e (base_url s) u = u" if "absolute_unchanged e" and "url_scheme e u \<noteq> []"
    using that by (simp add: absolute_unchanged_def)
  with call show ?thesis
    by (auto simp: OAuth2Session_request_def)
qed

theorem request_resolves_against_base_url_witness:
  "base_url (session (bp (world_of example_config))) = ''https://api.example.com/v1/'' \<and>
   base_url (session (bp (world_of example_config))) \<noteq> [] \<and>
   absolute_unchanged example_env \<and>
   hc_url (request_call example_env (session (bp (world_of example_config))) ''GET'' ''users/me'' None None)
     = ''https://api.example.com/v1/users/me'' \<and>
   url_scheme example_env ''https://other.example.org/x'' \<noteq> [] \<and>
   hc_url (request_call example_env (session (bp (world_of example_config))) ''GET''
            ''https://other.example.org/x'' None None)
     = ''https://other.example.org/x''"
proof -
  let ?s = "session (bp (world_of example_config))"
  have b: "base_url ?s = ''https://api.example.com/v1/''"
    by (simp add: sample_defs)
  then have nb: "base_url ?s \<noteq> []"
    by simp
  have c: "absolute_unchanged example_env"
    by (simp add: absolute_unchanged_def example_env_def)
  have r: "relative example_env ''https://api.example.com/v1/'' ''users/me'' = ''https://api.example.com/v1/users/me''"
    by (simp add: example_env_def example_scheme_def)
  have a: "url_scheme example_env ''https://other.example.org/x'' \<noteq> []"
    by (simp add: example_env_def example_scheme_def)
  from request_resolves_against_base_url [OF nb, of example_env "''GET''" "''users/me''" None None]
  have "hc_url (request_call example_env ?s ''GET'' ''users/me'' None None)
          = relative example_env (base_url ?s) ''users/me''"
    by blast
  then have rel: "hc_url (request_call example_env ?s ''GET'' ''users/me'' None None)
          = ''https://api.example.com/v1/users/me''"
    by (simp only: b r)
  from request_resolves_against_base_url [OF nb, of example_env "''GET''" "''https://other.example.org/x''" None None] c a
  have ab: "hc_url (request_call example_env ?s ''GET'' ''https://other.example.org/x'' None None)
          = ''https://other.example.org/x''"
    by blast
  from b nb c rel a ab show ?thesis
    by blast
qed

subsection \<open>The authorized predicate of the session\<close>

text \<open>
  C9: after the blueprint loaded the token into the session, the session is authorized
  exactly when the token store holds a non-empty token for the current principal. With
  the token of the tests (\<^verbatim>\<open>access_token\<close>, \<^verbatim>\<open>scope\<close>, \<^verbatim>\<open>token_type\<close>) stored
  it is authorized; with no token stored it is not. The same holds for the session's own
  \<^verbatim>\<open>load_token(user, user_id)\<close> and the principal it names.
\<close>

theorem authorized_iff_token_loaded:
  "(session_authorized (session (bp (load_token e w))) \<longleftrightarrow>
      (\<exists>t. token_store w (principal_of (bp w)) = Some t \<and> t \<noteq> [])) \<and>
   (token_store w (principal_of (bp w)) = Some example_token \<longrightarrow>
      session_authorized (session (bp (load_token e w)))) \<and>
   (token_store w (principal_of (bp w)) = None \<longrightarrow>
      \<not> session_authorized (session (bp (load_token e w)))) \<and>
   (session_authorized (session (bp (OAuth2Session_load_token e usr uid w))) \<longleftrightarrow>
      (\<exists>t. token_store w (usr, uid) = Some t \<and> t \<noteq> []))"
proof -
  have loaded: "token (session (bp (load_token e v))) = token_store v (principal_of (bp v))" for v
    by (simp add: load_token_def get_token_def Let_def)
  have named: "token (session (bp (OAuth2Session_load_token e usr uid w))) = token_store w (usr, uid)"
    unfolding OAuth2Session_load_token_def loaded by (simp add: principal_of_def)
  have "example_token \<noteq> []"
    by (simp add: example_token_def)
  with loaded [of w] named show ?thesis
    by (auto simp: session_authorized_def split: option.splits)
qed

theorem authorized_iff_token_loaded_witness:
  "session_authorized (session (bp (load_token example_env
      ((world_of example_config)\<lparr>token_store := [(None, None) \<mapsto> example_token]\<rparr>)))) \<and>
   \<not> session_authorized (session (bp (load_token example_env (world_of example_config))))"
proof -
  let ?w = "(world_of example_config)\<lparr>token_store := [(None, None) \<mapsto> example_token]\<rparr>"
  have p: "principal_of (bp ?w) = (None, None)" "principal_of (bp (world_of example_config)) = (None, None)"
    by (simp_all add: principal_of_def sample_defs)
  have s: "token_store ?w (None, None) = Some example_token"
          "token_store (world_of example_config) (None, None) = None"
    by (simp_all add: world_of_def)
  from authorized_iff_token_loaded [of example_env ?w, unfolded p] s(1)
  have yes: "session_authorized (session (bp (load_token example_env ?w)))"
    by blast
  from authorized_iff_token_loaded [of example_env "world_of example_config", unfolded p] s(2)
  have no: "\<not> session_authorized (session (bp (load_token example_env (world_of example_config))))"
    by blast
  from yes no show ?thesis
    by (rule conjI)
qed

subsection \<open>The client\_id property\<close>

text \<open>
  C10: after an assignment to the blueprint's \<^verbatim>\<open>client_id\<close>, the session's
  \<^verbatim>\<open>client_id\<close> and the \<^verbatim>\<open>client_id\<close> of the session's internal client both
  equal the new value, and reading the blueprint's \<^verbatim>\<open>client_id\<close> returns it.
\<close>

theorem client_id_propagates:
  "client_id (session (client_id_set v self)) = v \<and>
   cl_client_id (priv_client (session (client_id_set v self))) = v \<and>
   client_id_get (client_id_set v self) = v"
  by (simp add: client_id_set_def client_id_get_def Let_def)

end
